theory Spec2Isabelle
  imports Complex_Main
begin

section \<open>PoissonInput (brian2/input/poissoninput.py)\<close>

text \<open>
  The development embeds the class \<open>PoissonInput\<close> of \<open>brian2/input/poissoninput.py\<close>:
  its constructor \<open>__init__\<close> (with the decorator \<open>check_units(N=1, rate=Hz)\<close>), its four
  read-only properties and its method \<open>before_run\<close>. Python objects that are shared and
  mutated (groups, clocks, the scheduled objects) live in an explicit store, the record
  \<open>world\<close>; an exception is the \<open>Inl\<close> branch of a sum, returned together with the store
  as it is at the moment of the raise. Python floats are idealised as reals.
\<close>

subsection \<open>Physical dimensions and quantities\<close>

text \<open>
  Modelled from the spec: the unit system (\<open>brian2.units.fundamentalunits\<close>, \<open>brian2.units.stdunits\<close>)
  is not part of the file under study. The spec describes it as a "dimensioned-quantity system" that
  "provides dimension extraction, dimension equality, and arithmetic". A dimension is the vector of
  the exponents of the seven SI base dimensions (length, mass, time, current, temperature, amount,
  luminous intensity), a quantity is a magnitude with a dimension, and the product of two
  quantities multiplies the magnitudes and adds the exponents.
\<close>

datatype dimension = Dimension int int int int int int int

definition DIMENSIONLESS :: dimension where
  "DIMENSIONLESS = Dimension 0 0 0 0 0 0 0"

definition second_dim :: dimension where
  "second_dim = Dimension 0 0 1 0 0 0 0"

definition Hz_dim :: dimension where
  "Hz_dim = Dimension 0 0 (- 1) 0 0 0 0"

fun dim_mul :: "dimension \<Rightarrow> dimension \<Rightarrow> dimension" where
  "dim_mul (Dimension a b c d e f g) (Dimension a' b' c' d' e' f' g') =
     Dimension (a + a') (b + b') (c + c') (d + d') (e + e') (f + f') (g + g')"

record 'a quantity =
  magnitude :: 'a
  dim :: dimension

definition get_dimensions :: "'a quantity \<Rightarrow> dimension" where
  "get_dimensions q = dim q"

definition have_same_dimensions :: "dimension \<Rightarrow> dimension \<Rightarrow> bool" where
  "have_same_dimensions d1 d2 = (d1 = d2)"

definition quantity_mul :: "real quantity \<Rightarrow> real quantity \<Rightarrow> real quantity" where
  "quantity_mul x y = \<lparr>magnitude = magnitude x * magnitude y, dim = dim_mul (dim x) (dim y)\<rparr>"

subsection \<open>Errors\<close>

text \<open>
  The three exceptions the file raises. \<open>DimensionMismatchError\<close> carries its message and the
  dimensions passed to it.
\<close>

datatype error =
    KeyError string
  | DimensionMismatchError string "dimension list"
  | NotImplementedError string

subsection \<open>The store: clocks, groups and scheduled objects\<close>

type_synonym ref = nat

record clock =
  clk_dt :: real

record variable =
  var_dim :: dimension

record group =
  g_name :: string
  variables :: "string \<rightharpoonup> variable"
  g_clock :: ref

text \<open>
  Modelled from the spec: \<open>BinomialFunction\<close> (\<open>brian2/input/binomial.py\<close>) is not part of the file
  under study. The spec's BinomialApproximator is "constructed from (trialCount: integer,
  successProbability: real in [0,1])" and names no failure of that constructor: the model stores
  its two arguments as they are passed, under the name that \<open>Nameable\<close> resolves the pattern to
  (the resolution \<open>find_name\<close> is a parameter).
\<close>

record BinomialFunction =
  bf_name :: string
  bf_n :: int
  bf_p :: "real quantity"

definition BinomialFunction_init ::
  "(string \<Rightarrow> string) \<Rightarrow> int quantity \<Rightarrow> real quantity \<Rightarrow> string \<Rightarrow> BinomialFunction" where
  "BinomialFunction_init find_name n p name =
     \<lparr>bf_name = find_name name, bf_n = magnitude n, bf_p = p\<rparr>"

datatype weight = WStr string | WQuantity "real quantity"

text \<open>
  The attributes that \<open>CodeRunner.__init__\<close> receives (lines 91-101), and the attributes the
  subclass \<open>PoissonInput\<close> adds to them.
\<close>

record CodeRunner =
  cr_group :: ref
  cr_template :: string
  cr_code :: string
  cr_user_code :: string
  cr_when :: string
  cr_order :: int
  cr_name :: string
  cr_clock :: ref

record PoissonInput = CodeRunner +
  self_weight :: weight
  self_target_var :: string
  self_N :: "int quantity"
  self_rate :: "real quantity"
  self_stored_dt :: real
  self_group :: ref
  self_variables :: "string \<rightharpoonup> BinomialFunction"

record world =
  groups :: "ref \<Rightarrow> group"
  clocks :: "ref \<Rightarrow> clock"
  scheduled :: "PoissonInput list"

text \<open>\<open>target.dt_\<close> (named \<open>group_dt\<close> here): the step duration of the group's clock, as a bare number.\<close>

definition group_dt :: "world \<Rightarrow> ref \<Rightarrow> real" where
  "group_dt w target = clk_dt (clocks w (g_clock (groups w target)))"

text \<open>\<open>target.clock.dt\<close>: the same step duration as a quantity in seconds.\<close>

definition clock_dt :: "world \<Rightarrow> ref \<Rightarrow> real quantity" where
  "clock_dt w target = \<lparr>magnitude = group_dt w target, dim = second_dim\<rparr>"

subsection \<open>The constructor\<close>

text \<open>
  Modelled from the spec: the decorator \<open>check_units\<close> (\<open>brian2.units.fundamentalunits\<close>) is not part
  of the file under study; line 55 applies it as \<open>check_units(N=1, rate=Hz)\<close>. The spec gives the
  constructor's inputs as \<open>trialCount\<close> (integer) and \<open>rate\<close> (quantity, dimension 1/time). The model
  compares the dimension of each decorated argument with the dimension line 55 asks for and raises
  \<open>DimensionMismatchError\<close> for the first argument that differs; the message records only the
  argument's name.
\<close>

definition check_units :: "int quantity \<Rightarrow> real quantity \<Rightarrow> error option" where
  "check_units N rate =
     (if \<not> have_same_dimensions (get_dimensions N) DIMENSIONLESS
        then Some (DimensionMismatchError ''N'' [get_dimensions N])
      else if \<not> have_same_dimensions (get_dimensions rate) Hz_dim
        then Some (DimensionMismatchError ''rate'' [get_dimensions rate])
      else None)"

text \<open>
  Lines 63-79: a string weight is wrapped in parentheses; a quantity weight is compared with the
  dimension of the target variable and then rendered by \<open>repr\<close> (a parameter: \<open>Quantity.__repr__\<close>
  is not part of the file under study).
\<close>

definition weight_mismatch_msg :: "string \<Rightarrow> string" where
  "weight_mismatch_msg target_var =
     ''The provided weight does not '' @ ''have the same unit as the ''
       @ ''target variable '' @ [CHR 0x27] @ target_var @ [CHR 0x27]"

definition weight_code ::
  "(real quantity \<Rightarrow> string) \<Rightarrow> string \<Rightarrow> variable \<Rightarrow> weight \<Rightarrow> error + string" where
  "weight_code repr target_var tv weight =
     (case weight of
        WStr s \<Rightarrow> Inr (''('' @ s @ '')'')
      | WQuantity q \<Rightarrow>
          (let weight_dims = get_dimensions q;
               target_dims = var_dim tv
           in if \<not> have_same_dimensions weight_dims target_dims
              then Inl (DimensionMismatchError (weight_mismatch_msg target_var)
                          [weight_dims, target_dims])
              else Inr (repr q)))"

text \<open>
  Modelled from the spec: \<open>CodeRunner.__init__\<close> (\<open>brian2/groups/group.py\<close>) is not part of the file
  under study. The spec says that a successful construction "registers this expression as a
  scheduled operation against targetEntity's clock, tagged with schedulingPhase and priority":
  the model appends the object to the store's list of scheduled objects.
\<close>

definition CodeRunner_register :: "PoissonInput \<Rightarrow> world \<Rightarrow> world" where
  "CodeRunner_register self w = w\<lparr>scheduled := scheduled w @ [self]\<rparr>"

text \<open>
  Lines 80-103, reached when no validation has raised: the sampler is built from \<open>N\<close> and the
  product \<open>rate * target.clock.dt\<close>, the update code from the target variable, the sampler's name
  and the weight's text \<open>wstr\<close>; the step duration is copied; the sampler is stored in
  \<open>self.variables\<close> under its name.
\<close>

definition PoissonInput_object ::
  "(string \<Rightarrow> string) \<Rightarrow> world \<Rightarrow> ref \<Rightarrow> string \<Rightarrow> int quantity \<Rightarrow> real quantity \<Rightarrow> weight
     \<Rightarrow> string \<Rightarrow> int \<Rightarrow> string \<Rightarrow> PoissonInput" where
  "PoissonInput_object find_name w target target_var N rate weight when order wstr =
     (let binomial_sampling =
            BinomialFunction_init find_name N (quantity_mul rate (clock_dt w target))
              ''poissoninput_binomial*'';
          code = target_var @ '' += '' @ bf_name binomial_sampling @ ''()*'' @ wstr
      in \<lparr>cr_group = target, cr_template = ''stateupdate'', cr_code = code,
          cr_user_code = '''', cr_when = when, cr_order = order,
          cr_name = find_name ''poissoninput*'',
          cr_clock = g_clock (groups w target),
          self_weight = weight, self_target_var = target_var,
          self_N = N, self_rate = rate,
          self_stored_dt = group_dt w target, self_group = target,
          self_variables = [bf_name binomial_sampling \<mapsto> binomial_sampling]\<rparr>)"

text \<open>The body of \<open>__init__\<close>, lines 57-103.\<close>

definition PoissonInput_body ::
  "(string \<Rightarrow> string) \<Rightarrow> (real quantity \<Rightarrow> string) \<Rightarrow> world \<Rightarrow> ref \<Rightarrow> string \<Rightarrow> int quantity
     \<Rightarrow> real quantity \<Rightarrow> weight \<Rightarrow> string \<Rightarrow> int \<Rightarrow> (error + PoissonInput) \<times> world" where
  "PoissonInput_body find_name repr w target target_var N rate weight when order =
     (case variables (groups w target) target_var of
        None \<Rightarrow>
          (Inl (KeyError (target_var @ '' is not a variable of '' @ g_name (groups w target))), w)
      | Some tv \<Rightarrow>
          (case weight_code repr target_var tv weight of
             Inl e \<Rightarrow> (Inl e, w)
           | Inr wstr \<Rightarrow>
               (let self = PoissonInput_object find_name w target target_var N rate weight
                             when order wstr
                in (Inr self, CodeRunner_register self w))))"

text \<open>The decorated constructor: the unit check of line 55 runs before the body.\<close>

definition PoissonInput_init ::
  "(string \<Rightarrow> string) \<Rightarrow> (real quantity \<Rightarrow> string) \<Rightarrow> world \<Rightarrow> ref \<Rightarrow> string \<Rightarrow> int quantity
     \<Rightarrow> real quantity \<Rightarrow> weight \<Rightarrow> string \<Rightarrow> int \<Rightarrow> (error + PoissonInput) \<times> world" where
  "PoissonInput_init find_name repr w target target_var N rate weight when order =
     (case check_units N rate of
        Some e \<Rightarrow> (Inl e, w)
      | None \<Rightarrow> PoissonInput_body find_name repr w target target_var N rate weight when order)"

text \<open>
  Lines 105-110: the properties \<open>rate\<close>, \<open>N\<close>, \<open>target_var\<close> and \<open>weight\<close> have a getter only; each
  returns the attribute that the constructor stored.
\<close>

definition PoissonInput_rate :: "PoissonInput \<Rightarrow> real quantity" where
  "PoissonInput_rate self = self_rate self"

definition PoissonInput_N :: "PoissonInput \<Rightarrow> int quantity" where
  "PoissonInput_N self = self_N self"

definition PoissonInput_target_var :: "PoissonInput \<Rightarrow> string" where
  "PoissonInput_target_var self = self_target_var self"

definition PoissonInput_weight :: "PoissonInput \<Rightarrow> weight" where
  "PoissonInput_weight self = self_weight self"

subsection \<open>The run-time check\<close>

text \<open>
  \<open>before_run\<close>, lines 112-119. \<open>CodeRunner.before_run\<close> is not part of the file under study and is a
  parameter: when the step durations agree, the method hands over to it and its outcome, whatever
  it is, is the \<open>Inr\<close> branch.
\<close>

definition drift_msg :: "string \<Rightarrow> string" where
  "drift_msg group_name =
     ''The dt used for simulating '' @ group_name @ '' ''
       @ ''changed after the PoissonInput source was '' @ ''created.''"

definition before_run ::
  "(PoissonInput \<Rightarrow> 'ns \<Rightarrow> world \<Rightarrow> 'r) \<Rightarrow> PoissonInput \<Rightarrow> 'ns \<Rightarrow> world \<Rightarrow> error + 'r" where
  "before_run CodeRunner_before_run self run_namespace w =
     (if group_dt w (self_group self) \<noteq> self_stored_dt self
      then Inl (NotImplementedError (drift_msg (g_name (groups w (cr_group self)))))
      else Inr (CodeRunner_before_run self run_namespace w))"

text \<open>
  What the surrounding program can do to a clock after a construction: the assignment
  \<open>clock.dt = v\<close>, which changes the step duration of the clock at \<open>c\<close> and nothing else.
\<close>

definition set_clock_dt :: "ref \<Rightarrow> real \<Rightarrow> world \<Rightarrow> world" where
  "set_clock_dt c v w = w\<lparr>clocks := (clocks w)(c := \<lparr>clk_dt = v\<rparr>)\<rparr>"

subsection \<open>The sampler\<close>

text \<open>
  Modelled from the spec: the sampling function of \<open>BinomialFunction\<close> (\<open>brian2/input/binomial.py\<close>)
  is not part of the file under study. The spec gives \<open>sample()\<close> as a draw from
  Binomial(trialCount, successProbability) and justifies it as "the sum of trialCount independent
  Bernoulli(p) trials". The random source is explicit state: a stream of uniform draws and the
  position of the next one. A call consumes \<open>trialCount\<close> draws and counts those below the success
  probability.
\<close>

record rng =
  draws :: "nat \<Rightarrow> real"
  pos :: nat

definition sample :: "BinomialFunction \<Rightarrow> rng \<Rightarrow> int \<times> rng" where
  "sample s r =
     (let k = nat (bf_n s);
          us = map (draws r) [pos r ..< pos r + k]
      in (int (length (filter (\<lambda>u. u < magnitude (bf_p s)) us)), r\<lparr>pos := pos r + k\<rparr>))"

subsection \<open>A concrete configuration\<close>

text \<open>
  A group named \<open>neurongroup\<close> with one variable \<open>v\<close> in volt, on a clock with a given step
  duration, and nothing scheduled yet. Pattern names lose their final star.
\<close>

definition volt_dim :: dimension where
  "volt_dim = Dimension 2 1 (- 3) (- 1) 0 0 0"

definition ex_group :: group where
  "ex_group = \<lparr>g_name = ''neurongroup'', variables = [''v'' \<mapsto> \<lparr>var_dim = volt_dim\<rparr>], g_clock = 0\<rparr>"

definition ex_world :: "real \<Rightarrow> world" where
  "ex_world dt = \<lparr>groups = (\<lambda>_. ex_group), clocks = (\<lambda>_. \<lparr>clk_dt = dt\<rparr>), scheduled = []\<rparr>"

definition ex_find_name :: "string \<Rightarrow> string" where
  "ex_find_name s = (if s \<noteq> [] \<and> last s = CHR ''*'' then butlast s else s)"

definition ex_repr :: "real quantity \<Rightarrow> string" where
  "ex_repr q = ''weight''"

definition ex_before_run :: "PoissonInput \<Rightarrow> unit \<Rightarrow> world \<Rightarrow> unit" where
  "ex_before_run self run_namespace w = ()"

definition ex_N :: "int quantity" where
  "ex_N = \<lparr>magnitude = 1000, dim = DIMENSIONLESS\<rparr>"

definition Hz :: "real \<Rightarrow> real quantity" where
  "Hz r = \<lparr>magnitude = r, dim = Hz_dim\<rparr>"

definition volt :: "real \<Rightarrow> real quantity" where
  "volt x = \<lparr>magnitude = x, dim = volt_dim\<rparr>"

definition plain :: "real \<Rightarrow> real quantity" where
  "plain x = \<lparr>magnitude = x, dim = DIMENSIONLESS\<rparr>"

text \<open>
  A construction on a clock with step \<open>dt0\<close>, then the assignment of \<open>dt1\<close> to the clock's step,
  then \<open>before_run\<close>.
\<close>

definition ex_drift :: "real \<Rightarrow> real \<Rightarrow> error + unit" where
  "ex_drift dt0 dt1 =
     (case PoissonInput_init ex_find_name ex_repr (ex_world dt0) 0 ''v'' ex_N (Hz 10)
             (WStr ''w'') ''synapses'' 0 of
        (Inl e, w') \<Rightarrow> Inl e
      | (Inr self, w') \<Rightarrow> before_run ex_before_run self () (set_clock_dt 0 dt1 w'))"

text \<open>
  A random source whose draws alternate between 1/4 and 3/4, and samplers with given trial count
  and success probability.
\<close>

definition ex_draws :: "nat \<Rightarrow> real" where
  "ex_draws i = (if even i then 1/4 else 3/4)"

definition ex_rng :: rng where
  "ex_rng = \<lparr>draws = ex_draws, pos = 0\<rparr>"

definition ex_sampler :: "int \<Rightarrow> real \<Rightarrow> BinomialFunction" where
  "ex_sampler k x = \<lparr>bf_name = ''poissoninput_binomial'', bf_n = k, bf_p = plain x\<rparr>"

section \<open>Properties\<close>

subsection \<open>Auxiliary facts\<close>

lemma check_units_None_iff:
  "check_units N rate = None \<longleftrightarrow> dim N = DIMENSIONLESS \<and> dim rate = Hz_dim"
  by (simp add: check_units_def have_same_dimensions_def get_dimensions_def)

lemma check_units_Some_mismatch:
  "check_units N rate = Some e \<Longrightarrow> \<exists>msg ds. e = DimensionMismatchError msg ds"
  by (auto simp: check_units_def split: if_splits)

lemma init_failure_keeps_world:
  "PoissonInput_init find_name repr w target target_var N rate weight when order = (Inl e, w')
     \<Longrightarrow> w' = w"
  by (auto simp: PoissonInput_init_def PoissonInput_body_def Let_def
           split: option.splits sum.splits)

lemma init_success_registers:
  "PoissonInput_init find_name repr w target target_var N rate weight when order = (Inr self, w')
     \<Longrightarrow> w' = CodeRunner_register self w"
  by (auto simp: PoissonInput_init_def PoissonInput_body_def Let_def
           split: option.splits sum.splits)

lemma init_success_iff:
  "(\<exists>self w'. PoissonInput_init find_name repr w target target_var N rate weight when order
       = (Inr self, w'))
   \<longleftrightarrow> check_units N rate = None
       \<and> (\<exists>tv ws. variables (groups w target) target_var = Some tv
             \<and> weight_code repr target_var tv weight = Inr ws)"
  by (auto simp: PoissonInput_init_def PoissonInput_body_def Let_def
           split: option.splits sum.splits)

lemma init_success_value:
  "check_units N rate = None \<Longrightarrow> variables (groups w target) target_var = Some tv
     \<Longrightarrow> weight_code repr target_var tv weight = Inr ws
     \<Longrightarrow> PoissonInput_init find_name repr w target target_var N rate weight when order
         = (Inr (PoissonInput_object find_name w target target_var N rate weight when order ws),
            CodeRunner_register
              (PoissonInput_object find_name w target target_var N rate weight when order ws) w)"
  by (simp add: PoissonInput_init_def PoissonInput_body_def Let_def)

lemma init_success_object:
  "PoissonInput_init find_name repr w target target_var N rate weight when order = (Inr self, w')
     \<Longrightarrow> \<exists>tv ws. variables (groups w target) target_var = Some tv
           \<and> weight_code repr target_var tv weight = Inr ws
           \<and> self = PoissonInput_object find_name w target target_var N rate weight when order ws"
  by (auto simp: PoissonInput_init_def PoissonInput_body_def Let_def
           split: option.splits sum.splits)

lemma weight_code_WStr [simp]:
  "weight_code repr target_var tv (WStr s) = Inr (''('' @ s @ '')'')"
  by (simp add: weight_code_def)

lemma ex_check_units [simp]: "check_units ex_N (Hz r) = None"
  by (simp add: check_units_None_iff ex_N_def Hz_def)

lemma ex_variables [simp]:
  "variables (groups (ex_world dt) t) x = (if x = ''v'' then Some \<lparr>var_dim = volt_dim\<rparr> else None)"
  by (simp add: ex_world_def ex_group_def)

lemma ex_g_name [simp]: "g_name (groups (ex_world dt) t) = ''neurongroup''"
  by (simp add: ex_world_def ex_group_def)

lemma ex_names [simp]:
  "ex_find_name ''poissoninput_binomial*'' = ''poissoninput_binomial''"
  "ex_find_name ''poissoninput*'' = ''poissoninput''"
  by (simp_all add: ex_find_name_def)

lemma ex_group_dt [simp]: "group_dt (ex_world dt) t = dt"
  by (simp add: group_dt_def ex_world_def)

lemma ex_init_WStr:
  "PoissonInput_init ex_find_name ex_repr (ex_world dt) 0 ''v'' ex_N (Hz r) (WStr s) when order
     = (Inr (PoissonInput_object ex_find_name (ex_world dt) 0 ''v'' ex_N (Hz r) (WStr s) when order
               (''('' @ s @ '')'')),
        CodeRunner_register
          (PoissonInput_object ex_find_name (ex_world dt) 0 ''v'' ex_N (Hz r) (WStr s) when order
             (''('' @ s @ '')'')) (ex_world dt))"
  by (rule init_success_value [where tv = "\<lparr>var_dim = volt_dim\<rparr>"]) simp_all

subsection \<open>Atomic construction\<close>

text \<open>
  Claim C8. Whenever the constructor raises, the store it leaves behind is the store it started
  from: groups, clocks and the list of scheduled objects are untouched, so no operation has been
  registered. Only a construction that returns an object extends the list of scheduled objects,
  by that one object, and it changes neither groups nor clocks.
\<close>

theorem construction_is_atomic:
  "(PoissonInput_init find_name repr w target target_var N rate weight when order = (Inl e, w')
      \<longrightarrow> w' = w)
   \<and> (PoissonInput_init find_name repr w target target_var N rate weight when order = (Inr self, w')
      \<longrightarrow> scheduled w' = scheduled w @ [self] \<and> groups w' = groups w \<and> clocks w' = clocks w)"
  by (auto simp: CodeRunner_register_def dest: init_failure_keeps_world init_success_registers)

theorem construction_is_atomic_witness:
  "PoissonInput_init ex_find_name ex_repr (ex_world (1/10000)) 0 ''u'' ex_N (Hz 10)
       (WStr ''w'') ''synapses'' 0
     = (Inl (KeyError ''u is not a variable of neurongroup''), ex_world (1/10000))
   \<and> PoissonInput_init ex_find_name ex_repr (ex_world (1/10000)) 0 ''v'' ex_N (Hz 10)
       (WQuantity (plain 2)) ''synapses'' 0
     = (Inl (DimensionMismatchError (weight_mismatch_msg ''v'') [DIMENSIONLESS, volt_dim]),
        ex_world (1/10000))
   \<and> scheduled (snd (PoissonInput_init ex_find_name ex_repr (ex_world (1/10000)) 0 ''u'' ex_N
       (Hz 10) (WStr ''w'') ''synapses'' 0)) = []"
  using construction_is_atomic [of ex_find_name ex_repr "ex_world (1/10000)" 0 "''u''" ex_N "Hz 10"
      "WStr ''w''" "''synapses''" 0 "KeyError ''u is not a variable of neurongroup''"
      "ex_world (1/10000)"]
  by (simp add: PoissonInput_init_def PoissonInput_body_def weight_code_def
      get_dimensions_def have_same_dimensions_def plain_def DIMENSIONLESS_def volt_dim_def)
     (simp add: ex_world_def)

subsection \<open>The success probability\<close>

text \<open>
  Claim C1. A construction that returns an object has built one sampler, stored under its name in
  the object's variables, from \<open>N\<close> and the product of \<open>rate\<close> and the step duration that the
  target's clock had at that moment. Nothing recomputes it afterwards: assigning another step
  duration \<open>v\<close> to any clock \<open>c\<close> leaves every scheduled object, its sampler and its update code
  included, as it was, and so does assigning another value \<open>r\<close> to the object's \<open>_rate\<close>.
\<close>

theorem success_probability_fixed_at_construction:
  "PoissonInput_init find_name repr w target target_var N rate weight when order = (Inr self, w')
   \<longrightarrow> self_variables self
         = [find_name ''poissoninput_binomial*'' \<mapsto>
              \<lparr>bf_name = find_name ''poissoninput_binomial*'', bf_n = magnitude N,
               bf_p = quantity_mul rate (clock_dt w target)\<rparr>]
       \<and> magnitude (quantity_mul rate (clock_dt w target)) = magnitude rate * group_dt w target
       \<and> scheduled w' = scheduled w @ [self]
       \<and> scheduled (set_clock_dt c v w') = scheduled w'
       \<and> self_variables (self\<lparr>self_rate := r\<rparr>) = self_variables self
       \<and> cr_code (self\<lparr>self_rate := r\<rparr>) = cr_code self"
proof
  assume ok: "PoissonInput_init find_name repr w target target_var N rate weight when order
                = (Inr self, w')"
  from init_success_object [OF ok] obtain ws where
    self: "self = PoissonInput_object find_name w target target_var N rate weight when order ws"
    by blast
  have vars: "self_variables self
         = [find_name ''poissoninput_binomial*'' \<mapsto>
              \<lparr>bf_name = find_name ''poissoninput_binomial*'', bf_n = magnitude N,
               bf_p = quantity_mul rate (clock_dt w target)\<rparr>]"
    by (simp add: self PoissonInput_object_def BinomialFunction_init_def Let_def)
  have prod: "magnitude (quantity_mul rate (clock_dt w target)) = magnitude rate * group_dt w target"
    by (simp add: quantity_mul_def clock_dt_def)
  have reg: "scheduled w' = scheduled w @ [self]"
    using init_success_registers [OF ok] by (simp add: CodeRunner_register_def)
  have frame: "scheduled (set_clock_dt c v w') = scheduled w'"
    by (simp add: set_clock_dt_def)
  show "self_variables self
         = [find_name ''poissoninput_binomial*'' \<mapsto>
              \<lparr>bf_name = find_name ''poissoninput_binomial*'', bf_n = magnitude N,
               bf_p = quantity_mul rate (clock_dt w target)\<rparr>]
       \<and> magnitude (quantity_mul rate (clock_dt w target)) = magnitude rate * group_dt w target
       \<and> scheduled w' = scheduled w @ [self]
       \<and> scheduled (set_clock_dt c v w') = scheduled w'
       \<and> self_variables (self\<lparr>self_rate := r\<rparr>) = self_variables self
       \<and> cr_code (self\<lparr>self_rate := r\<rparr>) = cr_code self"
    using vars prod reg frame by simp
qed

text \<open>
  With 1000 inputs at 10 Hz on a clock of 0.1 ms the sampler holds the probability 1/1000, and
  it still does after the clock's step has been set to 0.2 ms.
\<close>

theorem success_probability_fixed_at_construction_witness:
  "map (\<lambda>self. map_option (\<lambda>b. (bf_n b, magnitude (bf_p b), dim (bf_p b)))
                  (self_variables self ''poissoninput_binomial''))
      (scheduled (set_clock_dt 0 (1/5000)
         (snd (PoissonInput_init ex_find_name ex_repr (ex_world (1/10000)) 0 ''v'' ex_N (Hz 10)
                 (WStr ''w'') ''synapses'' 0))))
   = [Some (1000, 1/1000, DIMENSIONLESS)]"
  using success_probability_fixed_at_construction
    [of ex_find_name ex_repr "ex_world (1/10000)" 0 "''v''" ex_N "Hz 10" "WStr ''w''"
        "''synapses''" 0
        "PoissonInput_object ex_find_name (ex_world (1/10000)) 0 ''v'' ex_N (Hz 10) (WStr ''w'')
           ''synapses'' 0 ''(w)''"
        "CodeRunner_register
           (PoissonInput_object ex_find_name (ex_world (1/10000)) 0 ''v'' ex_N (Hz 10) (WStr ''w'')
              ''synapses'' 0 ''(w)'') (ex_world (1/10000))"
        0 "1/5000" "Hz 10"]
  by (simp add: ex_init_WStr)
     (simp add: ex_world_def ex_N_def Hz_def quantity_mul_def clock_dt_def second_dim_def
        Hz_dim_def DIMENSIONLESS_def)

subsection \<open>The check at the start of a run\<close>

text \<open>
  Claim C3. \<open>before_run\<close> raises its \<open>NotImplementedError\<close> exactly when the step duration read
  from the target group differs from the copy the object holds; when the two agree it hands over
  to \<open>CodeRunner.before_run\<close>. The copy is the step duration at construction; the constructor never
  raises that error, and a run started right after a construction passes the check.
\<close>

theorem before_run_checks_step_duration:
  "((\<exists>msg. before_run CodeRunner_before_run self ns w = Inl (NotImplementedError msg))
      \<longleftrightarrow> group_dt w (self_group self) \<noteq> self_stored_dt self)
   \<and> ((\<exists>e. before_run CodeRunner_before_run self ns w = Inl e)
      \<longleftrightarrow> group_dt w (self_group self) \<noteq> self_stored_dt self)
   \<and> (group_dt w (self_group self) = self_stored_dt self
      \<longrightarrow> before_run CodeRunner_before_run self ns w = Inr (CodeRunner_before_run self ns w))
   \<and> (PoissonInput_init find_name repr w0 target target_var N rate weight when order
        = (Inr self0, w0')
      \<longrightarrow> self_stored_dt self0 = group_dt w0 target \<and> self_group self0 = target
          \<and> before_run CodeRunner_before_run self0 ns w0'
              = Inr (CodeRunner_before_run self0 ns w0'))
   \<and> fst (PoissonInput_init find_name repr w0 target target_var N rate weight when order)
        \<noteq> Inl (NotImplementedError msg')"
proof -
  have a: "(\<exists>msg. before_run CodeRunner_before_run self ns w = Inl (NotImplementedError msg))
      \<longleftrightarrow> group_dt w (self_group self) \<noteq> self_stored_dt self"
    by (simp add: before_run_def)
  have b: "(\<exists>e. before_run CodeRunner_before_run self ns w = Inl e)
      \<longleftrightarrow> group_dt w (self_group self) \<noteq> self_stored_dt self"
    by (simp add: before_run_def)
  have c: "group_dt w (self_group self) = self_stored_dt self
      \<longrightarrow> before_run CodeRunner_before_run self ns w = Inr (CodeRunner_before_run self ns w)"
    by (simp add: before_run_def)
  have d: "PoissonInput_init find_name repr w0 target target_var N rate weight when order
        = (Inr self0, w0')
      \<longrightarrow> self_stored_dt self0 = group_dt w0 target \<and> self_group self0 = target
          \<and> before_run CodeRunner_before_run self0 ns w0'
              = Inr (CodeRunner_before_run self0 ns w0')"
  proof
    assume ok: "PoissonInput_init find_name repr w0 target target_var N rate weight when order
                  = (Inr self0, w0')"
    from init_success_object [OF ok] obtain ws where
      self0: "self0 = PoissonInput_object find_name w0 target target_var N rate weight when order ws"
      by blast
    have w0': "w0' = CodeRunner_register self0 w0"
      by (rule init_success_registers [OF ok])
    have st: "self_stored_dt self0 = group_dt w0 target" and gr: "self_group self0 = target"
      by (simp_all add: self0 PoissonInput_object_def Let_def)
    have same: "group_dt w0' target = group_dt w0 target"
      by (simp add: w0' CodeRunner_register_def group_dt_def)
    show "self_stored_dt self0 = group_dt w0 target \<and> self_group self0 = target
          \<and> before_run CodeRunner_before_run self0 ns w0'
              = Inr (CodeRunner_before_run self0 ns w0')"
      using st gr same by (simp add: before_run_def)
  qed
  have e: "fst (PoissonInput_init find_name repr w0 target target_var N rate weight when order)
        \<noteq> Inl (NotImplementedError msg')"
    by (auto simp: PoissonInput_init_def PoissonInput_body_def Let_def weight_code_def
        check_units_def split: option.splits sum.splits weight.splits if_splits)
  from a b c d e show ?thesis by blast
qed

text \<open>
  A construction on a clock of 0.1 ms: a run started with the clock unchanged passes the check,
  a run started after the step has been set to 0.2 ms raises.
\<close>

theorem before_run_checks_step_duration_witness:
  "ex_drift (1/10000) (1/10000) = Inr ()
   \<and> ex_drift (1/10000) (1/5000) = Inl (NotImplementedError (drift_msg ''neurongroup''))"
  using before_run_checks_step_duration
    [of ex_before_run
        "PoissonInput_object ex_find_name (ex_world (1/10000)) 0 ''v'' ex_N (Hz 10) (WStr ''w'')
           ''synapses'' 0 ''(w)''"
        "()"
        "set_clock_dt 0 (1/5000) (CodeRunner_register
           (PoissonInput_object ex_find_name (ex_world (1/10000)) 0 ''v'' ex_N (Hz 10) (WStr ''w'')
              ''synapses'' 0 ''(w)'') (ex_world (1/10000)))"
        ex_find_name ex_repr "ex_world (1/10000)" 0 "''v''" ex_N "Hz 10" "WStr ''w''"
        "''synapses''" 0
        "PoissonInput_object ex_find_name (ex_world (1/10000)) 0 ''v'' ex_N (Hz 10) (WStr ''w'')
           ''synapses'' 0 ''(w)''"
        "CodeRunner_register
           (PoissonInput_object ex_find_name (ex_world (1/10000)) 0 ''v'' ex_N (Hz 10) (WStr ''w'')
              ''synapses'' 0 ''(w)'') (ex_world (1/10000))"
        "''x''"]
  by (simp add: ex_drift_def ex_init_WStr)
     (simp add: before_run_def set_clock_dt_def CodeRunner_register_def group_dt_def
        PoissonInput_object_def Let_def ex_world_def ex_group_def ex_before_run_def)


subsection \<open>The unit check on the arguments\<close>

text \<open>
  Claim C10. The unit check of line 55 comes first: when \<open>N\<close> is not dimensionless, or \<open>rate\<close> does
  not have the dimension of 1/time, the constructor raises a \<open>DimensionMismatchError\<close> and leaves
  the store as it is, whatever the target variable and the weight are, so also when the target
  variable exists and the weight's dimension matches. A construction that returns an object has
  passed the check.
\<close>

theorem unit_check_comes_first:
  "(get_dimensions N \<noteq> DIMENSIONLESS
      \<longrightarrow> PoissonInput_init find_name repr w target target_var N rate weight when order
            = (Inl (DimensionMismatchError ''N'' [get_dimensions N]), w))
   \<and> (get_dimensions N = DIMENSIONLESS \<and> get_dimensions rate \<noteq> Hz_dim
      \<longrightarrow> PoissonInput_init find_name repr w target target_var N rate weight when order
            = (Inl (DimensionMismatchError ''rate'' [get_dimensions rate]), w))
   \<and> (PoissonInput_init find_name repr w target target_var N rate weight when order
        = (Inr self, w')
      \<longrightarrow> get_dimensions N = DIMENSIONLESS \<and> get_dimensions rate = Hz_dim)"
proof -
  have "PoissonInput_init find_name repr w target target_var N rate weight when order
          = (Inr self, w') \<Longrightarrow> check_units N rate = None"
    using init_success_iff [of find_name repr w target target_var N rate weight "when" order]
    by blast
  then show ?thesis
    by (auto simp: PoissonInput_init_def check_units_def have_same_dimensions_def
        split: if_splits)
qed

text \<open>
  The variable \<open>v\<close> exists and the weight is in volt, as \<open>v\<close> is; a rate without dimension, or a
  number of inputs in volt, is refused all the same.
\<close>

theorem unit_check_comes_first_witness:
  "PoissonInput_init ex_find_name ex_repr (ex_world (1/10000)) 0 ''v'' ex_N (plain 10)
       (WQuantity (volt (1/2))) ''synapses'' 0
     = (Inl (DimensionMismatchError ''rate'' [DIMENSIONLESS]), ex_world (1/10000))
   \<and> PoissonInput_init ex_find_name ex_repr (ex_world (1/10000)) 0 ''v''
       \<lparr>magnitude = 1000, dim = volt_dim\<rparr> (Hz 10) (WQuantity (volt (1/2))) ''synapses'' 0
     = (Inl (DimensionMismatchError ''N'' [volt_dim]), ex_world (1/10000))"
  using unit_check_comes_first [of ex_N ex_find_name ex_repr "ex_world (1/10000)" 0
      "''v''" "plain 10" "WQuantity (volt (1/2))" "''synapses''" 0]
    unit_check_comes_first [of "\<lparr>magnitude = 1000, dim = volt_dim\<rparr>" ex_find_name ex_repr
      "ex_world (1/10000)" 0 "''v''" "Hz 10" "WQuantity (volt (1/2))" "''synapses''" 0]
  by (simp add: get_dimensions_def ex_N_def plain_def DIMENSIONLESS_def Hz_dim_def volt_dim_def)


subsection \<open>The target variable\<close>

text \<open>
  Claim C4, amended. For every construction that passes the unit check on \<open>N\<close> and \<open>rate\<close> and
  whose target variable is not in the target group's variables, the constructor raises a
  \<open>KeyError\<close> whose message is the variable's name, the words "is not a variable of" and the
  group's name, and it leaves the store as it is, so nothing is scheduled. The weight is not
  looked at: the membership test is the first statement of the constructor's body.
\<close>

theorem missing_variable_raises_KeyError:
  "check_units N rate = None \<and> variables (groups w target) target_var = None
   \<longrightarrow> PoissonInput_init find_name repr w target target_var N rate weight when order
        = (Inl (KeyError (target_var @ '' is not a variable of '' @ g_name (groups w target))), w)"
  by (simp add: PoissonInput_init_def PoissonInput_body_def)

text \<open>The group has no variable \<open>u\<close>; the weight's dimension does not match any variable.\<close>

theorem missing_variable_raises_KeyError_witness:
  "PoissonInput_init ex_find_name ex_repr (ex_world (1/10000)) 0 ''u'' ex_N (Hz 10)
       (WQuantity (plain 2)) ''synapses'' 0
     = (Inl (KeyError ''u is not a variable of neurongroup''), ex_world (1/10000))"
  using missing_variable_raises_KeyError [of ex_N "Hz 10" "ex_world (1/10000)" 0 "''u''"
      ex_find_name ex_repr "WQuantity (plain 2)" "''synapses''" 0]
  by simp

text \<open>
  Without the unit check passed, a missing target variable is not reported: with a rate that
  carries no dimension the constructor raises the \<open>DimensionMismatchError\<close> of the unit check.
\<close>

theorem missing_variable_counterexample:
  "variables (groups (ex_world (1/10000)) 0) ''u'' = None
   \<and> PoissonInput_init ex_find_name ex_repr (ex_world (1/10000)) 0 ''u'' ex_N (plain 10)
       (WStr ''w'') ''synapses'' 0
     = (Inl (DimensionMismatchError ''rate'' [DIMENSIONLESS]), ex_world (1/10000))"
  by (simp add: PoissonInput_init_def check_units_def get_dimensions_def
      have_same_dimensions_def ex_N_def plain_def DIMENSIONLESS_def Hz_dim_def)


subsection \<open>The weight\<close>

text \<open>
  Claim C5, amended. For every construction that passes the unit check on \<open>N\<close> and \<open>rate\<close>, whose
  target variable exists and whose weight is a quantity \<open>q\<close>: when the dimension of \<open>q\<close> differs
  from the target variable's, the constructor raises a \<open>DimensionMismatchError\<close> that carries both
  dimensions and leaves the store as it is; when the two dimensions are equal, the construction
  returns the object and schedules it, whatever the magnitude of \<open>q\<close>. In any construction, that
  error is raised only for a quantity whose dimension differs from the target variable's.
\<close>

theorem quantity_weight_dimension_check:
  "(check_units N rate = None \<and> variables (groups w target) target_var = Some tv
      \<and> get_dimensions q \<noteq> var_dim tv
      \<longrightarrow> PoissonInput_init find_name repr w target target_var N rate (WQuantity q) when order
            = (Inl (DimensionMismatchError (weight_mismatch_msg target_var)
                      [get_dimensions q, var_dim tv]), w))
   \<and> (check_units N rate = None \<and> variables (groups w target) target_var = Some tv
      \<and> get_dimensions q = var_dim tv
      \<longrightarrow> PoissonInput_init find_name repr w target target_var N rate (WQuantity q) when order
            = (Inr (PoissonInput_object find_name w target target_var N rate (WQuantity q)
                      when order (repr q)),
               CodeRunner_register
                 (PoissonInput_object find_name w target target_var N rate (WQuantity q)
                    when order (repr q)) w))
   \<and> (fst (PoissonInput_init find_name repr w target target_var N rate (WQuantity q) when order)
        = Inl (DimensionMismatchError (weight_mismatch_msg target_var) ds)
      \<longrightarrow> (\<exists>tv'. variables (groups w target) target_var = Some tv'
             \<and> get_dimensions q \<noteq> var_dim tv' \<and> ds = [get_dimensions q, var_dim tv']))"
proof -
  have a: "check_units N rate = None \<and> variables (groups w target) target_var = Some tv
      \<and> get_dimensions q \<noteq> var_dim tv
      \<longrightarrow> PoissonInput_init find_name repr w target target_var N rate (WQuantity q) when order
            = (Inl (DimensionMismatchError (weight_mismatch_msg target_var)
                      [get_dimensions q, var_dim tv]), w)"
    by (simp add: PoissonInput_init_def PoissonInput_body_def weight_code_def
        have_same_dimensions_def Let_def)
  have b: "check_units N rate = None \<and> variables (groups w target) target_var = Some tv
      \<and> get_dimensions q = var_dim tv
      \<longrightarrow> PoissonInput_init find_name repr w target target_var N rate (WQuantity q) when order
            = (Inr (PoissonInput_object find_name w target target_var N rate (WQuantity q)
                      when order (repr q)),
               CodeRunner_register
                 (PoissonInput_object find_name w target target_var N rate (WQuantity q)
                    when order (repr q)) w)"
    by (simp add: PoissonInput_init_def PoissonInput_body_def weight_code_def
        have_same_dimensions_def Let_def)
  have c: "fst (PoissonInput_init find_name repr w target target_var N rate (WQuantity q) when order)
        = Inl (DimensionMismatchError (weight_mismatch_msg target_var) ds)
      \<longrightarrow> (\<exists>tv'. variables (groups w target) target_var = Some tv'
             \<and> get_dimensions q \<noteq> var_dim tv' \<and> ds = [get_dimensions q, var_dim tv'])"
    by (auto simp: PoissonInput_init_def PoissonInput_body_def weight_code_def check_units_def
        have_same_dimensions_def Let_def weight_mismatch_msg_def
        split: option.splits if_splits)
  from a b c show ?thesis by blast
qed

text \<open>
  On the variable \<open>v\<close>, in volt: a weight without dimension is refused with both dimensions in the
  error; weights of 0.5 volt and of a million volt are both accepted and scheduled.
\<close>

theorem quantity_weight_dimension_check_witness:
  "PoissonInput_init ex_find_name ex_repr (ex_world (1/10000)) 0 ''v'' ex_N (Hz 10)
       (WQuantity (plain 2)) ''synapses'' 0
     = (Inl (DimensionMismatchError (weight_mismatch_msg ''v'') [DIMENSIONLESS, volt_dim]),
        ex_world (1/10000))
   \<and> map cr_code (scheduled (snd (PoissonInput_init ex_find_name ex_repr (ex_world (1/10000)) 0
        ''v'' ex_N (Hz 10) (WQuantity (volt (1/2))) ''synapses'' 0)))
     = [''v += poissoninput_binomial()*weight'']
   \<and> map cr_code (scheduled (snd (PoissonInput_init ex_find_name ex_repr (ex_world (1/10000)) 0
        ''v'' ex_N (Hz 10) (WQuantity (volt 1000000)) ''synapses'' 0)))
     = [''v += poissoninput_binomial()*weight'']"
  using quantity_weight_dimension_check [of ex_N "Hz 10" "ex_world (1/10000)" 0 "''v''"
      "\<lparr>var_dim = volt_dim\<rparr>" "plain 2" ex_find_name ex_repr "''synapses''" 0 "[]"]
    quantity_weight_dimension_check [of ex_N "Hz 10" "ex_world (1/10000)" 0 "''v''"
      "\<lparr>var_dim = volt_dim\<rparr>" "volt (1/2)" ex_find_name ex_repr "''synapses''" 0 "[]"]
    quantity_weight_dimension_check [of ex_N "Hz 10" "ex_world (1/10000)" 0 "''v''"
      "\<lparr>var_dim = volt_dim\<rparr>" "volt 1000000" ex_find_name ex_repr "''synapses''" 0 "[]"]
  by (simp add: get_dimensions_def plain_def volt_def DIMENSIONLESS_def volt_dim_def
      CodeRunner_register_def PoissonInput_object_def BinomialFunction_init_def Let_def
      ex_repr_def)
     (simp add: ex_world_def)

text \<open>
  A weight in volt on the variable \<open>v\<close>, in volt, with a rate that carries no dimension: the
  dimensions of weight and variable are equal and the construction fails, with a
  \<open>DimensionMismatchError\<close>.
\<close>

theorem quantity_weight_counterexample:
  "variables (groups (ex_world (1/10000)) 0) ''v'' = Some \<lparr>var_dim = volt_dim\<rparr>
   \<and> get_dimensions (volt (1/2)) = volt_dim
   \<and> PoissonInput_init ex_find_name ex_repr (ex_world (1/10000)) 0 ''v'' ex_N (plain 10)
       (WQuantity (volt (1/2))) ''synapses'' 0
     = (Inl (DimensionMismatchError ''rate'' [DIMENSIONLESS]), ex_world (1/10000))"
  by (simp add: PoissonInput_init_def check_units_def get_dimensions_def
      have_same_dimensions_def ex_N_def plain_def volt_def DIMENSIONLESS_def Hz_dim_def)


text \<open>
  Claim C6. For a weight given as a string \<open>s\<close>, the constructor compares no dimension of the
  weight with anything: the weight's text is \<open>s\<close> in parentheses whatever the target variable's
  dimension is, the constructor never raises the weight's \<open>DimensionMismatchError\<close>, and the
  construction returns an object as soon as the unit check on \<open>N\<close> and \<open>rate\<close> passes and the
  target variable exists. The update code of the object is the target variable, \<open>+=\<close>, the
  sampler's name with \<open>()\<close>, \<open>*\<close> and \<open>s\<close> in parentheses.
\<close>

theorem string_weight_is_parenthesised:
  "weight_code repr target_var tv (WStr s) = Inr (''('' @ s @ '')'')
   \<and> fst (PoissonInput_init find_name repr w target target_var N rate (WStr s) when order)
        \<noteq> Inl (DimensionMismatchError (weight_mismatch_msg target_var) ds)
   \<and> (check_units N rate = None \<and> variables (groups w target) target_var = Some tv'
      \<longrightarrow> (\<exists>self. PoissonInput_init find_name repr w target target_var N rate (WStr s) when order
                    = (Inr self, CodeRunner_register self w)))
   \<and> (PoissonInput_init find_name repr w target target_var N rate (WStr s) when order
        = (Inr self, w')
      \<longrightarrow> cr_code self
            = target_var @ '' += '' @ find_name ''poissoninput_binomial*'' @ ''()*''
                @ ''('' @ s @ '')'')"
proof -
  have a: "weight_code repr target_var tv (WStr s) = Inr (''('' @ s @ '')'')"
    by simp
  have b: "fst (PoissonInput_init find_name repr w target target_var N rate (WStr s) when order)
        \<noteq> Inl (DimensionMismatchError (weight_mismatch_msg target_var) ds)"
    by (auto simp: PoissonInput_init_def PoissonInput_body_def check_units_def Let_def
        weight_mismatch_msg_def split: option.splits if_splits)
  have c: "check_units N rate = None \<and> variables (groups w target) target_var = Some tv'
      \<longrightarrow> (\<exists>self. PoissonInput_init find_name repr w target target_var N rate (WStr s) when order
                    = (Inr self, CodeRunner_register self w))"
    by (simp add: PoissonInput_init_def PoissonInput_body_def Let_def)
  have d: "PoissonInput_init find_name repr w target target_var N rate (WStr s) when order
        = (Inr self, w')
      \<longrightarrow> cr_code self
            = target_var @ '' += '' @ find_name ''poissoninput_binomial*'' @ ''()*''
                @ ''('' @ s @ '')''"
  proof
    assume ok: "PoissonInput_init find_name repr w target target_var N rate (WStr s) when order
                  = (Inr self, w')"
    from init_success_object [OF ok] obtain ws where
      "self = PoissonInput_object find_name w target target_var N rate (WStr s) when order ws"
      and "ws = ''('' @ s @ '')''"
      by auto
    then show "cr_code self
            = target_var @ '' += '' @ find_name ''poissoninput_binomial*'' @ ''()*''
                @ ''('' @ s @ '')''"
      by (simp add: PoissonInput_object_def BinomialFunction_init_def Let_def)
  qed
  from a b c d show ?thesis by blast
qed

text \<open>The weight \<open>a - b\<close> on the variable \<open>v\<close>: the multiplicand is \<open>(a - b)\<close>.\<close>

theorem string_weight_is_parenthesised_witness:
  "map cr_code (scheduled (snd (PoissonInput_init ex_find_name ex_repr (ex_world (1/10000)) 0
      ''v'' ex_N (Hz 10) (WStr ''a - b'') ''synapses'' 0)))
   = [''v += poissoninput_binomial()*(a - b)'']"
  using string_weight_is_parenthesised [of ex_repr "''v''" "\<lparr>var_dim = volt_dim\<rparr>" "''a - b''"
      ex_find_name "ex_world (1/10000)" 0 ex_N "Hz 10" "''synapses''" 0 "[]"
      "\<lparr>var_dim = volt_dim\<rparr>"
      "PoissonInput_object ex_find_name (ex_world (1/10000)) 0 ''v'' ex_N (Hz 10) (WStr ''a - b'')
         ''synapses'' 0 ''(a - b)''"
      "CodeRunner_register
         (PoissonInput_object ex_find_name (ex_world (1/10000)) 0 ''v'' ex_N (Hz 10)
            (WStr ''a - b'') ''synapses'' 0 ''(a - b)'') (ex_world (1/10000))"]
  by (simp add: ex_init_WStr)
     (simp add: CodeRunner_register_def ex_world_def)


subsection \<open>The product of rate and step duration\<close>

text \<open>
  Claim C7, amended. The product of \<open>rate\<close> and the clock's step duration is dimensionless
  exactly when \<open>rate\<close> has the dimension of 1/time; for every construction where it is not, the
  constructor raises a \<open>DimensionMismatchError\<close>, the one of the unit check on the arguments, and
  leaves the store as it is. The value of the product is not compared with 0 or 1: every
  construction that passes the unit check, finds its target variable and accepts its weight
  returns an object whose sampler holds the product as it is.
\<close>

theorem product_dimension_checked_value_unchecked:
  "(dim (quantity_mul rate (clock_dt w target)) = DIMENSIONLESS \<longleftrightarrow> get_dimensions rate = Hz_dim)
   \<and> (dim (quantity_mul rate (clock_dt w target)) \<noteq> DIMENSIONLESS
      \<longrightarrow> (\<exists>msg ds. PoissonInput_init find_name repr w target target_var N rate weight when order
                      = (Inl (DimensionMismatchError msg ds), w)))
   \<and> (check_units N rate = None \<and> variables (groups w target) target_var = Some tv
        \<and> weight_code repr target_var tv weight = Inr ws
      \<longrightarrow> (\<exists>self. PoissonInput_init find_name repr w target target_var N rate weight when order
                    = (Inr self, CodeRunner_register self w)
                \<and> self_variables self (find_name ''poissoninput_binomial*'')
                    = Some \<lparr>bf_name = find_name ''poissoninput_binomial*'', bf_n = magnitude N,
                            bf_p = quantity_mul rate (clock_dt w target)\<rparr>))"
proof -
  have a: "dim (quantity_mul rate (clock_dt w target)) = DIMENSIONLESS
             \<longleftrightarrow> get_dimensions rate = Hz_dim"
    by (cases "dim rate")
       (auto simp: quantity_mul_def clock_dt_def second_dim_def DIMENSIONLESS_def Hz_dim_def
          get_dimensions_def)
  have b: "dim (quantity_mul rate (clock_dt w target)) \<noteq> DIMENSIONLESS
      \<longrightarrow> (\<exists>msg ds. PoissonInput_init find_name repr w target target_var N rate weight when order
                      = (Inl (DimensionMismatchError msg ds), w))"
  proof
    assume "dim (quantity_mul rate (clock_dt w target)) \<noteq> DIMENSIONLESS"
    with a have "get_dimensions rate \<noteq> Hz_dim" by simp
    then show "\<exists>msg ds. PoissonInput_init find_name repr w target target_var N rate weight
                 when order = (Inl (DimensionMismatchError msg ds), w)"
      by (simp add: PoissonInput_init_def check_units_def have_same_dimensions_def)
  qed
  have c: "check_units N rate = None \<and> variables (groups w target) target_var = Some tv
        \<and> weight_code repr target_var tv weight = Inr ws
      \<longrightarrow> (\<exists>self. PoissonInput_init find_name repr w target target_var N rate weight when order
                    = (Inr self, CodeRunner_register self w)
                \<and> self_variables self (find_name ''poissoninput_binomial*'')
                    = Some \<lparr>bf_name = find_name ''poissoninput_binomial*'', bf_n = magnitude N,
                            bf_p = quantity_mul rate (clock_dt w target)\<rparr>)"
    by (simp add: PoissonInput_init_def PoissonInput_body_def PoissonInput_object_def
        BinomialFunction_init_def Let_def)
  from a b c show ?thesis by blast
qed

text \<open>
  A rate in volt is refused; 1000 inputs at 10 Hz on a clock of 0.1 ms are accepted and the
  sampler holds 1/1000.
\<close>

theorem product_dimension_checked_value_unchecked_witness:
  "PoissonInput_init ex_find_name ex_repr (ex_world (1/10000)) 0 ''v'' ex_N (volt 10)
       (WStr ''w'') ''synapses'' 0
     = (Inl (DimensionMismatchError ''rate'' [volt_dim]), ex_world (1/10000))
   \<and> map (\<lambda>self. map_option (\<lambda>b. magnitude (bf_p b))
                    (self_variables self ''poissoninput_binomial''))
        (scheduled (snd (PoissonInput_init ex_find_name ex_repr (ex_world (1/10000)) 0 ''v'' ex_N
           (Hz 10) (WStr ''w'') ''synapses'' 0)))
     = [Some (1/1000)]"
  using product_dimension_checked_value_unchecked [of "volt 10" "ex_world (1/10000)" 0
      ex_find_name ex_repr "''v''" ex_N "WStr ''w''" "''synapses''" 0 "\<lparr>var_dim = volt_dim\<rparr>"
      "''(w)''"]
    product_dimension_checked_value_unchecked [of "Hz 10" "ex_world (1/10000)" 0
      ex_find_name ex_repr "''v''" ex_N "WStr ''w''" "''synapses''" 0 "\<lparr>var_dim = volt_dim\<rparr>"
      "''(w)''"]
  by (simp add: ex_init_WStr)
     (simp add: PoissonInput_init_def check_units_def have_same_dimensions_def
        get_dimensions_def ex_N_def volt_def Hz_def Hz_dim_def volt_dim_def DIMENSIONLESS_def
        quantity_mul_def clock_dt_def second_dim_def CodeRunner_register_def
        PoissonInput_object_def BinomialFunction_init_def Let_def ex_world_def group_dt_def)

text \<open>
  At 20000 Hz on a clock of 0.1 ms the product is 2, and the construction returns an object.
\<close>

theorem product_range_counterexample:
  "quantity_mul (Hz 20000) (clock_dt (ex_world (1/10000)) 0) = plain 2
   \<and> PoissonInput_init ex_find_name ex_repr (ex_world (1/10000)) 0 ''v'' ex_N (Hz 20000)
       (WStr ''w'') ''synapses'' 0
     = (Inr (PoissonInput_object ex_find_name (ex_world (1/10000)) 0 ''v'' ex_N (Hz 20000)
               (WStr ''w'') ''synapses'' 0 ''(w)''),
        CodeRunner_register
          (PoissonInput_object ex_find_name (ex_world (1/10000)) 0 ''v'' ex_N (Hz 20000)
             (WStr ''w'') ''synapses'' 0 ''(w)'') (ex_world (1/10000)))
   \<and> self_variables (PoissonInput_object ex_find_name (ex_world (1/10000)) 0 ''v'' ex_N (Hz 20000)
        (WStr ''w'') ''synapses'' 0 ''(w)'') ''poissoninput_binomial''
     = Some \<lparr>bf_name = ''poissoninput_binomial'', bf_n = 1000, bf_p = plain 2\<rparr>"
  by (simp add: ex_init_WStr)
     (simp add: PoissonInput_object_def BinomialFunction_init_def Let_def
        quantity_mul_def clock_dt_def Hz_def plain_def ex_N_def Hz_dim_def second_dim_def
        DIMENSIONLESS_def)


subsection \<open>What the errors carry\<close>

text \<open>
  Claim C9, amended. Every error of the constructor leaves the store as it is, and \<open>before_run\<close>
  raises before it hands over to \<open>CodeRunner.before_run\<close>. A \<open>KeyError\<close> of the constructor names
  the variable and the target group; the weight's \<open>DimensionMismatchError\<close> carries the
  dimension of the weight and the dimension of the target variable; the \<open>NotImplementedError\<close> of
  \<open>before_run\<close> names the target group and carries no step duration, neither the stored one nor
  the current one: it is determined by the group's name alone.
\<close>

theorem errors_carry_context:
  "(PoissonInput_init find_name repr w target target_var N rate weight when order = (Inl e, w')
      \<longrightarrow> w' = w)
   \<and> (fst (PoissonInput_init find_name repr w target target_var N rate weight when order)
        = Inl (KeyError msg)
      \<longrightarrow> msg = target_var @ '' is not a variable of '' @ g_name (groups w target))
   \<and> (fst (PoissonInput_init find_name repr w target target_var N rate weight when order)
        = Inl (DimensionMismatchError (weight_mismatch_msg target_var) ds)
      \<longrightarrow> (\<exists>q tv. weight = WQuantity q \<and> variables (groups w target) target_var = Some tv
                 \<and> ds = [get_dimensions q, var_dim tv]))
   \<and> (before_run CodeRunner_before_run self ns w1 = Inl e1
      \<longrightarrow> e1 = NotImplementedError (drift_msg (g_name (groups w1 (cr_group self)))))"
proof -
  have a: "PoissonInput_init find_name repr w target target_var N rate weight when order
             = (Inl e, w') \<longrightarrow> w' = w"
    using init_failure_keeps_world by blast
  have b: "fst (PoissonInput_init find_name repr w target target_var N rate weight when order)
        = Inl (KeyError msg)
      \<longrightarrow> msg = target_var @ '' is not a variable of '' @ g_name (groups w target)"
    by (auto simp: PoissonInput_init_def PoissonInput_body_def weight_code_def check_units_def
        Let_def split: option.splits weight.splits if_splits)
  have c: "fst (PoissonInput_init find_name repr w target target_var N rate weight when order)
        = Inl (DimensionMismatchError (weight_mismatch_msg target_var) ds)
      \<longrightarrow> (\<exists>q tv. weight = WQuantity q \<and> variables (groups w target) target_var = Some tv
                 \<and> ds = [get_dimensions q, var_dim tv])"
    by (auto simp: PoissonInput_init_def PoissonInput_body_def weight_code_def check_units_def
        Let_def weight_mismatch_msg_def split: option.splits weight.splits if_splits)
  have d: "before_run CodeRunner_before_run self ns w1 = Inl e1
      \<longrightarrow> e1 = NotImplementedError (drift_msg (g_name (groups w1 (cr_group self))))"
    by (auto simp: before_run_def split: if_splits)
  from a b c d show ?thesis by blast
qed

text \<open>
  The three errors on the group \<open>neurongroup\<close>: a missing variable \<open>u\<close>, a weight without
  dimension on the variable \<open>v\<close> in volt, and a run after the clock's step has gone from 0.1 ms
  to 0.2 ms.
\<close>

theorem errors_carry_context_witness:
  "PoissonInput_init ex_find_name ex_repr (ex_world (1/10000)) 0 ''u'' ex_N (Hz 10)
       (WStr ''w'') ''synapses'' 0
     = (Inl (KeyError ''u is not a variable of neurongroup''), ex_world (1/10000))
   \<and> PoissonInput_init ex_find_name ex_repr (ex_world (1/10000)) 0 ''v'' ex_N (Hz 10)
       (WQuantity (plain 2)) ''synapses'' 0
     = (Inl (DimensionMismatchError (weight_mismatch_msg ''v'') [DIMENSIONLESS, volt_dim]),
        ex_world (1/10000))
   \<and> before_run ex_before_run
        (PoissonInput_object ex_find_name (ex_world (1/10000)) 0 ''v'' ex_N (Hz 10) (WStr ''w'')
           ''synapses'' 0 ''(w)'') () (set_clock_dt 0 (1/5000) (ex_world (1/10000)))
     = Inl (NotImplementedError
         ''The dt used for simulating neurongroup changed after the PoissonInput source was created.'')"
  using errors_carry_context [of ex_find_name ex_repr "ex_world (1/10000)" 0 "''u''" ex_N "Hz 10"
      "WStr ''w''" "''synapses''" 0 "KeyError ''u is not a variable of neurongroup''"
      "ex_world (1/10000)" "''u is not a variable of neurongroup''" "[]" ex_before_run
      "PoissonInput_object ex_find_name (ex_world (1/10000)) 0 ''v'' ex_N (Hz 10) (WStr ''w'')
         ''synapses'' 0 ''(w)''" "()" "set_clock_dt 0 (1/5000) (ex_world (1/10000))"
      "NotImplementedError (drift_msg ''neurongroup'')"]
  by (simp add: PoissonInput_init_def PoissonInput_body_def weight_code_def
      get_dimensions_def have_same_dimensions_def plain_def DIMENSIONLESS_def volt_dim_def)
     (simp add: before_run_def drift_msg_def set_clock_dt_def group_dt_def
        PoissonInput_object_def Let_def ex_world_def ex_group_def)

text \<open>
  Two runs after a change of the step duration, one from 0.1 ms to 0.2 ms and one from 1 ms to
  0.5 ms, raise the same error, whose message holds none of the four durations.
\<close>

theorem drift_error_counterexample:
  "ex_drift (1/10000) (1/5000)
     = Inl (NotImplementedError
         ''The dt used for simulating neurongroup changed after the PoissonInput source was created.'')
   \<and> ex_drift (1/1000) (1/2000)
     = Inl (NotImplementedError
         ''The dt used for simulating neurongroup changed after the PoissonInput source was created.'')"
  by (simp add: ex_drift_def ex_init_WStr)
     (simp add: before_run_def drift_msg_def set_clock_dt_def CodeRunner_register_def group_dt_def
        PoissonInput_object_def Let_def ex_world_def ex_group_def)


subsection \<open>The range of a sample\<close>

lemma filter_length_le_nat:
  "0 \<le> k \<Longrightarrow> int (length (filter P (map f [a ..< a + nat k]))) \<le> k"
proof -
  assume k: "0 \<le> k"
  have "length (filter P (map f [a ..< a + nat k])) \<le> length (map f [a ..< a + nat k])"
    by (rule length_filter_le)
  also have "\<dots> = nat k" by simp
  finally show ?thesis using k by linarith
qed

text \<open>
  Claim C2. With draws that lie in [0,1), a trial count of at least 0 and a success probability
  in [0,1], a call of \<open>sample\<close> returns an integer between 0 and the trial count; it returns 0
  when the trial count is 0, 0 when the success probability is 0, and the trial count when the
  success probability is 1. The call leaves the draws of the random source as they are, so the
  same holds for each later call.
\<close>

theorem sample_in_range:
  "(\<forall>i. 0 \<le> draws r i \<and> draws r i < 1) \<and> 0 \<le> bf_n s
     \<and> 0 \<le> magnitude (bf_p s) \<and> magnitude (bf_p s) \<le> 1
   \<longrightarrow> 0 \<le> fst (sample s r) \<and> fst (sample s r) \<le> bf_n s
       \<and> (bf_n s = 0 \<longrightarrow> fst (sample s r) = 0)
       \<and> (magnitude (bf_p s) = 0 \<longrightarrow> fst (sample s r) = 0)
       \<and> (magnitude (bf_p s) = 1 \<longrightarrow> fst (sample s r) = bf_n s)
       \<and> draws (snd (sample s r)) = draws r"
proof
  assume h: "(\<forall>i. 0 \<le> draws r i \<and> draws r i < 1) \<and> 0 \<le> bf_n s
     \<and> 0 \<le> magnitude (bf_p s) \<and> magnitude (bf_p s) \<le> 1"
  have val: "fst (sample s r)
      = int (length (filter (\<lambda>u. u < magnitude (bf_p s))
               (map (draws r) [pos r ..< pos r + nat (bf_n s)])))"
    by (simp add: sample_def Let_def)
  have lo: "0 \<le> fst (sample s r)" by (simp add: val)
  have hi: "fst (sample s r) \<le> bf_n s"
    unfolding val using h by (intro filter_length_le_nat) simp
  have n0: "bf_n s = 0 \<longrightarrow> fst (sample s r) = 0" by (simp add: val)
  have p0: "magnitude (bf_p s) = 0 \<longrightarrow> fst (sample s r) = 0"
  proof
    assume "magnitude (bf_p s) = 0"
    then have "filter (\<lambda>u. u < magnitude (bf_p s)) (map (draws r) [pos r ..< pos r + nat (bf_n s)])
                 = []"
      using h by (auto simp: filter_empty_conv not_less)
    then show "fst (sample s r) = 0" by (simp add: val)
  qed
  have p1: "magnitude (bf_p s) = 1 \<longrightarrow> fst (sample s r) = bf_n s"
  proof
    assume "magnitude (bf_p s) = 1"
    then have "filter (\<lambda>u. u < magnitude (bf_p s)) (map (draws r) [pos r ..< pos r + nat (bf_n s)])
                 = map (draws r) [pos r ..< pos r + nat (bf_n s)]"
      using h by (auto simp: filter_id_conv)
    then show "fst (sample s r) = bf_n s" using h by (simp add: val)
  qed
  have dr: "draws (snd (sample s r)) = draws r" by (simp add: sample_def Let_def)
  from lo hi n0 p0 p1 dr
  show "0 \<le> fst (sample s r) \<and> fst (sample s r) \<le> bf_n s
       \<and> (bf_n s = 0 \<longrightarrow> fst (sample s r) = 0)
       \<and> (magnitude (bf_p s) = 0 \<longrightarrow> fst (sample s r) = 0)
       \<and> (magnitude (bf_p s) = 1 \<longrightarrow> fst (sample s r) = bf_n s)
       \<and> draws (snd (sample s r)) = draws r"
    by blast
qed

text \<open>
  Three trials on draws 1/4, 3/4, 1/4: two successes at probability 1/2, none at probability 0,
  three at probability 1; no trial gives 0.
\<close>

theorem sample_in_range_witness:
  "fst (sample (ex_sampler 3 (1/2)) ex_rng) = 2
   \<and> fst (sample (ex_sampler 3 0) ex_rng) = 0
   \<and> fst (sample (ex_sampler 3 1) ex_rng) = 3
   \<and> fst (sample (ex_sampler 0 (1/2)) ex_rng) = 0"
proof -
  have d: "\<forall>i. 0 \<le> draws ex_rng i \<and> draws ex_rng i < 1"
    by (simp add: ex_rng_def ex_draws_def)
  have up: "[0 ..< 3] = [0, 1, 2::nat]" by (simp add: upt_rec)
  have half: "fst (sample (ex_sampler 3 (1/2)) ex_rng) = 2"
    using sample_in_range [of ex_rng "ex_sampler 3 (1/2)"] d
    by (simp add: sample_def Let_def ex_sampler_def plain_def ex_rng_def ex_draws_def up)
  have zero: "fst (sample (ex_sampler 3 0) ex_rng) = 0"
    using sample_in_range [of ex_rng "ex_sampler 3 0"] d
    by (simp add: ex_sampler_def plain_def)
  have one: "fst (sample (ex_sampler 3 1) ex_rng) = 3"
    using sample_in_range [of ex_rng "ex_sampler 3 1"] d
    by (simp add: ex_sampler_def plain_def)
  have none: "fst (sample (ex_sampler 0 (1/2)) ex_rng) = 0"
    using sample_in_range [of ex_rng "ex_sampler 0 (1/2)"] d
    by (simp add: ex_sampler_def plain_def)
  from half zero one none show ?thesis by blast
qed


end
